theory Spec2Isabelle
  imports Complex_Main "HOL-Library.AList"
begin

section \<open>CSV2GeoJSON: a shallow embedding of csv2geojson.py\<close>

text \<open>
  The program joins the rows of a CSV table with administrative regions (GeoJSON
  polygons) and writes the rows as GeoJSON point markers. The model follows the three
  classes of the source: \<open>GeoBoundary\<close>, \<open>DictCSV\<close> and \<open>CSV2GeoJSON\<close>.

  Conventions of the model.
  \<^item> Every exception of the source is a value \<open>Inl e\<close> of \<open>error + 'a\<close>.
  \<^item> Python and numpy floating-point numbers are idealised as real numbers: rounding,
    overflow, infinities and NaN are outside the model.
  \<^item> A JSON document (the result of \<open>json.loads\<close>) and a value held in a CSV cell are
    values of the datatype \<open>json\<close>; a Python \<open>dict\<close> is an association list in
    insertion order whose lookups take the first entry of a key.
  \<^item> The functions of the libraries the source calls (the \<open>float\<close> parser of strings
    and shapely's \<open>shape\<close>, \<open>contains\<close> and \<open>nearest_points\<close>) are not part of the
    repository: they are the fields of a record \<open>pylib\<close> that every operation takes
    as a parameter. Theorems hold for every such library.
  \<^item> File reading and writing, CSV and JSON parsing and printing are outside the model:
    a boundary file is its parsed JSON document, a CSV file is the list of rows its
    reader yields, and \<open>dump_markers\<close> returns the document it would print.
\<close>

subsection \<open>Python values and errors\<close>

datatype error = KeyError | ValueError | TypeError | IndexError | StopIteration | LibraryError

datatype json =
    JNull
  | JBool bool
  | JNum real
  | JStr string
  | JArr "json list"
  | JObj "(string \<times> json) list"

text \<open>A shapely \<open>Point\<close>: \<open>pt_x\<close> is the longitude, \<open>pt_y\<close> the latitude, in degrees.\<close>

datatype point = Point (pt_x: real) (pt_y: real)

record 'shape pylib =
  lib_float :: "string \<Rightarrow> real option"
  lib_shape :: "json \<Rightarrow> error + 'shape"
  lib_contains :: "'shape \<Rightarrow> point \<Rightarrow> bool"
  lib_nearest_points :: "'shape \<Rightarrow> point \<Rightarrow> point"

text \<open>
  \<open>lib_float s\<close> is Python's \<open>float(s)\<close> on a string (\<open>None\<close>: it raises ValueError);
  \<open>lib_shape g\<close> is \<open>shapely.geometry.shape(g)\<close>; \<open>lib_contains s p\<close> is \<open>s.contains(p)\<close>;
  \<open>lib_nearest_points s p\<close> is \<open>shapely.ops.nearest_points(s, p)[0]\<close>, the point of
  \<open>s\<close> nearest to \<open>p\<close>.
\<close>

text \<open>\<open>d[k]\<close>: a dictionary looks the key up, every other JSON value rejects a string key.\<close>

fun subscript :: "json \<Rightarrow> string \<Rightarrow> error + json" where
  "subscript (JObj kvs) k = (case map_of kvs k of None \<Rightarrow> Inl KeyError | Some v \<Rightarrow> Inr v)"
| "subscript _ k = Inl TypeError"

text \<open>
  Iterating a JSON value: a list yields its elements, a dictionary its keys, a string
  its characters; the other values are not iterable.
\<close>

fun py_iter :: "json \<Rightarrow> error + json list" where
  "py_iter (JArr xs) = Inr xs"
| "py_iter (JObj kvs) = Inr (map (\<lambda>kv. JStr (fst kv)) kvs)"
| "py_iter (JStr s) = Inr (map (\<lambda>c. JStr [c]) s)"
| "py_iter _ = Inl TypeError"

text \<open>\<open>float(v)\<close> on a cell value.\<close>

fun py_float :: "'shape pylib \<Rightarrow> json \<Rightarrow> error + real" where
  "py_float lib (JStr s) = (case lib_float lib s of None \<Rightarrow> Inl ValueError | Some r \<Rightarrow> Inr r)"
| "py_float lib (JNum r) = Inr r"
| "py_float lib (JBool b) = Inr (if b then 1 else 0)"
| "py_float lib _ = Inl TypeError"

text \<open>A list comprehension whose body may raise: the first failure, in order, is raised.\<close>

fun traverse :: "('a \<Rightarrow> error + 'b) \<Rightarrow> 'a list \<Rightarrow> error + 'b list" where
  "traverse f [] = Inr []"
| "traverse f (x # xs) =
     (case f x of
        Inl e \<Rightarrow> Inl e
      | Inr v \<Rightarrow> (case traverse f xs of Inl e \<Rightarrow> Inl e | Inr vs \<Rightarrow> Inr (v # vs)))"

text \<open>\<open>xs[i]\<close> for an index that an \<open>enumerate\<close> produced (never negative).\<close>

definition list_get :: "'a list \<Rightarrow> nat \<Rightarrow> error + 'a" where
  "list_get xs i = (if i < length xs then Inr (xs ! i) else Inl IndexError)"

text \<open>\<open>xs[i] = v\<close> for a Python integer: a negative index counts from the end.\<close>

definition list_set :: "'a list \<Rightarrow> int \<Rightarrow> 'a \<Rightarrow> error + 'a list" where
  "list_set xs i v =
     (let n = int (length xs); j = (if i < 0 then i + n else i)
      in if 0 \<le> j \<and> j < n then Inr (xs[nat j := v]) else Inl IndexError)"

text \<open>\<open>min(xs)\<close>: a later element replaces the minimum only when strictly smaller.\<close>

fun py_min :: "real list \<Rightarrow> error + real" where
  "py_min [] = Inl ValueError"
| "py_min (x # xs) = Inr (fold (\<lambda>y m. if y < m then y else m) xs x)"

text \<open>\<open>xs.index(v)\<close>: the first position holding \<open>v\<close>.\<close>

fun py_index :: "real list \<Rightarrow> real \<Rightarrow> error + nat" where
  "py_index [] v = Inl ValueError"
| "py_index (x # xs) v =
     (if x = v then Inr 0
      else (case py_index xs v of Inl e \<Rightarrow> Inl e | Inr i \<Rightarrow> Inr (Suc i)))"

subsection \<open>GeoBoundary\<close>

record 'shape geoboundary =
  data :: json
  places :: "json list"
  shapes :: "'shape list"

text \<open>
  \<open>places\<close> holds the elements that iterating \<open>data["features"]\<close> yields. The source
  keeps the value itself and indexes it only with positions of \<open>shapes\<close>; when the
  value is not a list, building \<open>shapes\<close> has already raised unless it is empty.
\<close>

definition GeoBoundary_to_shape :: "'shape pylib \<Rightarrow> json \<Rightarrow> error + 'shape" where
  "GeoBoundary_to_shape lib feature =
     (case subscript feature ''geometry'' of
        Inl e \<Rightarrow> Inl e
      | Inr g \<Rightarrow> lib_shape lib g)"

definition GeoBoundary_init :: "'shape pylib \<Rightarrow> json \<Rightarrow> error + 'shape geoboundary" where
  "GeoBoundary_init lib d =
     (case subscript d ''features'' of
        Inl e \<Rightarrow> Inl e
      | Inr fs \<Rightarrow>
          (case py_iter fs of
             Inl e \<Rightarrow> Inl e
           | Inr ps \<Rightarrow>
               (case traverse (GeoBoundary_to_shape lib) ps of
                  Inl e \<Rightarrow> Inl e
                | Inr ss \<Rightarrow> Inr \<lparr>data = d, places = ps, shapes = ss\<rparr>)))"

definition deg2rad :: "real \<Rightarrow> real" where
  "deg2rad d = d * (pi / 180)"

text \<open>\<open>numpy.arctan2(y, x)\<close>: the angle of the point \<open>(x, y)\<close>, in \<open>(-pi, pi]\<close>.\<close>

definition arctan2 :: "real \<Rightarrow> real \<Rightarrow> real" where
  "arctan2 y x =
     (if 0 < x then arctan (y / x)
      else if x < 0 then (if 0 \<le> y then arctan (y / x) + pi else arctan (y / x) - pi)
      else if 0 < y then pi / 2
      else if y < 0 then - (pi / 2)
      else 0)"

text \<open>
  \<open>__haversine\<close> in two parts: the value \<open>alpha\<close> of lines 35 to 44, and the distance of
  line 45. \<open>np.power(x, 2)\<close> is the square.
\<close>

definition haversine_alpha :: "point \<Rightarrow> point \<Rightarrow> real" where
  "haversine_alpha pt1 pt2 =
     (let lng1 = deg2rad (pt_x pt1); lat1 = deg2rad (pt_y pt1);
          lng2 = deg2rad (pt_x pt2); lat2 = deg2rad (pt_y pt2);
          dlat = lat2 - lat1;
          dlng = lng2 - lng1;
          sindlat2 = (sin (dlat / 2))\<^sup>2;
          sindlng2 = (sin (dlng / 2))\<^sup>2;
          coslat1 = cos lat1;
          coslat2 = cos lat2
      in sindlat2 + coslat1 * coslat2 * sindlng2)"

definition GeoBoundary_haversine :: "point \<Rightarrow> point \<Rightarrow> real" where
  "GeoBoundary_haversine pt1 pt2 =
     (let alpha = haversine_alpha pt1 pt2
      in 6371 * 2 * arctan2 (sqrt alpha) (sqrt (1 - alpha)))"


text \<open>
  \<open>find\<close>: line 50 of the source turns the two coordinates into a shapely point; here
  the caller passes the point.
\<close>

definition GeoBoundary_find :: "'shape pylib \<Rightarrow> 'shape geoboundary \<Rightarrow> point \<Rightarrow> error + json list" where
  "GeoBoundary_find lib b pt =
     (case traverse (\<lambda>ix. list_get (places b) (fst ix))
             (filter (\<lambda>ix. lib_contains lib (snd ix) pt) (enumerate 0 (shapes b))) of
        Inl e \<Rightarrow> Inl e
      | Inr search \<Rightarrow>
          if length search = 0 then
            (let nearests = map (\<lambda>ix. lib_nearest_points lib (snd ix) pt) (enumerate 0 (shapes b));
                 distances = map (\<lambda>i. GeoBoundary_haversine i pt) nearests
             in case py_min distances of
                  Inl e \<Rightarrow> Inl e
                | Inr m \<Rightarrow>
                    (case py_index distances m of
                       Inl e \<Rightarrow> Inl e
                     | Inr k \<Rightarrow>
                         (case list_get (places b) k of
                            Inl e \<Rightarrow> Inl e
                          | Inr r \<Rightarrow> Inr [r])))
          else Inr search)"

subsection \<open>DictCSV\<close>

type_synonym row = "(string \<times> json) list"

record dictcsv =
  header :: "string list"
  rows :: "row list"
  cols :: "(string \<times> json list) list"

text \<open>\<open>dict(pairs)\<close>: a repeated key keeps its first position and takes the last value.\<close>

definition py_dict :: "('k \<times> 'v) list \<Rightarrow> ('k \<times> 'v) list" where
  "py_dict kvs = fold (\<lambda>kv d. AList.update (fst kv) (snd kv) d) kvs []"

text \<open>\<open>row[k]\<close> on a row.\<close>

definition dict_get :: "row \<Rightarrow> string \<Rightarrow> error + json" where
  "dict_get r k = (case map_of r k of None \<Rightarrow> Inl KeyError | Some v \<Rightarrow> Inr v)"

text \<open>
  The argument is the list of rows the CSV reader yields. \<open>next(reader)\<close> raises
  StopIteration on an empty file. \<open>np.array\<close> builds a two-dimensional array of
  strings from rows of one length, and is modelled as raising ValueError on rows of
  different lengths (numpy 1.24 and later). \<open>zip\<close> stops at the shorter argument, and
  \<open>table.T\<close> is the list of columns.
\<close>

fun DictCSV_init :: "string list list \<Rightarrow> error + dictcsv" where
  "DictCSV_init [] = Inl StopIteration"
| "DictCSV_init (h # table) =
     (if \<exists>r \<in> set table. length r \<noteq> length (hd table) then Inl ValueError
      else Inr \<lparr>header = h,
                rows = map (\<lambda>i. py_dict (zip h (map JStr i))) table,
                cols = py_dict (zip h (map (map JStr) (transpose table)))\<rparr>)"

definition DictCSV_add_col :: "dictcsv \<Rightarrow> string \<Rightarrow> dictcsv" where
  "DictCSV_add_col c name =
     \<lparr>header = header c @ [name],
      rows = map (\<lambda>row. AList.update name (JStr []) row) (rows c),
      cols = AList.update name (map (\<lambda>_. JStr []) (rows c)) (cols c)\<rparr>"

text \<open>
  The loop of \<open>set_row\<close> over the header: \<open>self.cols[k][row_id] = row[k]\<close> reads
  \<open>row[k]\<close> first, then \<open>self.cols[k]\<close>, then stores. A column is modelled as a list
  of cell values; that numpy stores the cells of the original columns as fixed-width
  strings is not modelled (the program never reads \<open>cols\<close>).
\<close>

fun set_cols :: "string list \<Rightarrow> (string \<times> json list) list \<Rightarrow> int \<Rightarrow> row \<Rightarrow>
    error + (string \<times> json list) list" where
  "set_cols [] cs row_id row = Inr cs"
| "set_cols (k # ks) cs row_id row =
     (case dict_get row k of
        Inl e \<Rightarrow> Inl e
      | Inr v \<Rightarrow>
          (case map_of cs k of
             None \<Rightarrow> Inl KeyError
           | Some col \<Rightarrow>
               (case list_set col row_id v of
                  Inl e \<Rightarrow> Inl e
                | Inr col' \<Rightarrow> set_cols ks (AList.update k col' cs) row_id row)))"

definition DictCSV_set_row :: "dictcsv \<Rightarrow> int \<Rightarrow> row \<Rightarrow> error + dictcsv" where
  "DictCSV_set_row c row_id row =
     (case list_set (rows c) row_id row of
        Inl e \<Rightarrow> Inl e
      | Inr rs \<Rightarrow>
          (case set_cols (header c) (cols c) row_id row of
             Inl e \<Rightarrow> Inl e
           | Inr cs \<Rightarrow> Inr \<lparr>header = header c, rows = rs, cols = cs\<rparr>))"

subsection \<open>CSV2GeoJSON\<close>

record 'shape csv2geojson =
  boundaries :: "'shape geoboundary list"
  csv :: dictcsv
  long_col :: string
  lat_col :: string

text \<open>The decimal digits of a number, as an f-string prints an integer.\<close>

definition digit_char :: "nat \<Rightarrow> char" where
  "digit_char d = ''0123456789'' ! d"

fun str_nat :: "nat \<Rightarrow> string" where
  "str_nat n = (if n < 10 then [digit_char n] else str_nat (n div 10) @ [digit_char (n mod 10)])"

declare str_nat.simps [simp del]

definition col_name :: "nat \<Rightarrow> string" where
  "col_name level = ''_geo_admin'' @ str_nat level"

text \<open>
  The name of the region of a point: \<open>boundary.find(point)[0]["properties"]["shapeName"]\<close>.
\<close>

definition region_name :: "'shape pylib \<Rightarrow> 'shape geoboundary \<Rightarrow> point \<Rightarrow> error + json" where
  "region_name lib boundary pt =
     (case GeoBoundary_find lib boundary pt of
        Inl e \<Rightarrow> Inl e
      | Inr found \<Rightarrow>
          (case list_get found 0 of
             Inl e \<Rightarrow> Inl e
           | Inr f \<Rightarrow>
               (case subscript f ''properties'' of
                  Inl e \<Rightarrow> Inl e
                | Inr props \<Rightarrow> subscript props ''shapeName'')))"

text \<open>
  The point of a row, \<open>[*map(float, [row[long_col], row[lat_col]])]\<close>: both cells are
  read before either is parsed.
\<close>

definition row_point :: "'shape pylib \<Rightarrow> string \<Rightarrow> string \<Rightarrow> row \<Rightarrow> error + point" where
  "row_point lib long lat row =
     (case dict_get row long of
        Inl e \<Rightarrow> Inl e
      | Inr lo \<Rightarrow>
          (case dict_get row lat of
             Inl e \<Rightarrow> Inl e
           | Inr la \<Rightarrow>
               (case py_float lib lo of
                  Inl e \<Rightarrow> Inl e
                | Inr x \<Rightarrow>
                    (case py_float lib la of
                       Inl e \<Rightarrow> Inl e
                     | Inr y \<Rightarrow> Inr (Point x y)))))"

text \<open>The body of the loop over the rows (lines 126 to 131).\<close>

definition join_row :: "'shape pylib \<Rightarrow> 'shape geoboundary \<Rightarrow> string \<Rightarrow> string \<Rightarrow> string \<Rightarrow>
    dictcsv \<Rightarrow> nat \<times> row \<Rightarrow> error + dictcsv" where
  "join_row lib boundary cname long lat c ir =
     (case row_point lib long lat (snd ir) of
        Inl e \<Rightarrow> Inl e
      | Inr pt \<Rightarrow>
          (case region_name lib boundary pt of
             Inl e \<Rightarrow> Inl e
           | Inr region \<Rightarrow>
               DictCSV_set_row c (int (fst ir)) (AList.update cname region (snd ir))))"

text \<open>
  The loop over \<open>enumerate(self.csv.rows)\<close>. The source iterates the list that
  \<open>set_row\<close> updates; \<open>set_row\<close> replaces only the position being visited, so the rows
  still to come are the ones \<open>add_col\<close> left, and the loop runs over that list.
\<close>

fun join_rows :: "'shape pylib \<Rightarrow> 'shape geoboundary \<Rightarrow> string \<Rightarrow> string \<Rightarrow> string \<Rightarrow>
    (nat \<times> row) list \<Rightarrow> dictcsv \<Rightarrow> error + dictcsv" where
  "join_rows lib boundary cname long lat [] c = Inr c"
| "join_rows lib boundary cname long lat (ir # rest) c =
     (case join_row lib boundary cname long lat c ir of
        Inl e \<Rightarrow> Inl e
      | Inr c' \<Rightarrow> join_rows lib boundary cname long lat rest c')"

text \<open>The loop over \<open>enumerate(self.boundaries)\<close> (lines 120 to 131).\<close>

fun join_levels :: "'shape pylib \<Rightarrow> string \<Rightarrow> string \<Rightarrow> (nat \<times> 'shape geoboundary) list \<Rightarrow>
    dictcsv \<Rightarrow> error + dictcsv" where
  "join_levels lib long lat [] c = Inr c"
| "join_levels lib long lat (lb # rest) c =
     (let c1 = DictCSV_add_col c (col_name (fst lb))
      in case join_rows lib (snd lb) (col_name (fst lb)) long lat (enumerate 0 (rows c1)) c1 of
           Inl e \<Rightarrow> Inl e
         | Inr c2 \<Rightarrow> join_levels lib long lat rest c2)"

definition CSV2GeoJSON_init :: "'shape pylib \<Rightarrow> string list list \<Rightarrow> string \<Rightarrow> string \<Rightarrow>
    json list \<Rightarrow> error + 'shape csv2geojson" where
  "CSV2GeoJSON_init lib csv_file long lat boundary_files =
     (case traverse (GeoBoundary_init lib) boundary_files of
        Inl e \<Rightarrow> Inl e
      | Inr bs \<Rightarrow>
          (case DictCSV_init csv_file of
             Inl e \<Rightarrow> Inl e
           | Inr c \<Rightarrow>
               if length boundary_files = 0 then
                 Inr \<lparr>boundaries = bs, csv = c, long_col = long, lat_col = lat\<rparr>
               else
                 (case join_levels lib long lat (enumerate 0 bs) c of
                    Inl e \<Rightarrow> Inl e
                  | Inr c' \<Rightarrow> Inr \<lparr>boundaries = bs, csv = c', long_col = long, lat_col = lat\<rparr>)))"

definition CSV2GeoJSON_to_feature :: "'shape pylib \<Rightarrow> 'shape csv2geojson \<Rightarrow> row \<Rightarrow> error + json" where
  "CSV2GeoJSON_to_feature lib self row =
     (case dict_get row (long_col self) of
        Inl e \<Rightarrow> Inl e
      | Inr lo \<Rightarrow>
          (case py_float lib lo of
             Inl e \<Rightarrow> Inl e
           | Inr x \<Rightarrow>
               (case dict_get row (lat_col self) of
                  Inl e \<Rightarrow> Inl e
                | Inr la \<Rightarrow>
                    (case py_float lib la of
                       Inl e \<Rightarrow> Inl e
                     | Inr y \<Rightarrow>
                         Inr (JObj [(''type'', JStr ''Feature''),
                                    (''properties'', JObj row),
                                    (''geometry'',
                                       JObj [(''coordinates'', JArr [JNum x, JNum y]),
                                             (''type'', JStr ''Point'')])])))))"

text \<open>\<open>dump_markers\<close> returns the document that the source hands to \<open>json.dump\<close>.\<close>

definition CSV2GeoJSON_dump_markers :: "'shape pylib \<Rightarrow> 'shape csv2geojson \<Rightarrow> error + json" where
  "CSV2GeoJSON_dump_markers lib self =
     (case traverse (CSV2GeoJSON_to_feature lib self) (rows (csv self)) of
        Inl e \<Rightarrow> Inl e
      | Inr fs \<Rightarrow> Inr (JObj [(''type'', JStr ''FeatureCollection''), (''features'', JArr fs)]))"

text \<open>
  The run of \<open>main\<close> up to the markers: the join, then \<open>dump_markers\<close>. Its arguments
  are the parsed command line.
\<close>

definition main_markers :: "'shape pylib \<Rightarrow> string list list \<Rightarrow> string \<Rightarrow> string \<Rightarrow> json list \<Rightarrow>
    error + json" where
  "main_markers lib csv_file long lat boundary_files =
     (case CSV2GeoJSON_init lib csv_file long lat boundary_files of
        Inl e \<Rightarrow> Inl e
      | Inr geojson \<Rightarrow> CSV2GeoJSON_dump_markers lib geojson)"

subsection \<open>Invariants of the table\<close>

text \<open>
  \<open>row_keys_ok\<close>: the fields of every row are exactly the names of the header.
  \<open>cols_ok\<close>: when there are rows, the header's names are keys of \<open>cols\<close>, and every
  column has one cell per row; \<open>set_row\<close> needs it to succeed.
\<close>

definition row_keys_ok :: "dictcsv \<Rightarrow> bool" where
  "row_keys_ok c \<longleftrightarrow> (\<forall>r \<in> set (rows c). fst ` set r = set (header c))"

definition cols_ok :: "dictcsv \<Rightarrow> bool" where
  "cols_ok c \<longleftrightarrow>
     (rows c \<noteq> [] \<longrightarrow> set (header c) \<subseteq> fst ` set (cols c))
     \<and> (\<forall>k col. map_of (cols c) k = Some col \<longrightarrow> length col = length (rows c))"

text \<open>
  The indices a list of length \<open>n\<close> accepts, and the position such an index denotes.
\<close>

definition in_index_range :: "int \<Rightarrow> nat \<Rightarrow> bool" where
  "in_index_range i n \<longleftrightarrow> - int n \<le> i \<and> i < int n"

definition py_position :: "int \<Rightarrow> nat \<Rightarrow> nat" where
  "py_position i n = nat (if i < 0 then i + int n else i)"

text \<open>
  A record whose longitude or latitude cell is missing or does not parse as a number.
\<close>

definition coordinate_error :: "'shape pylib \<Rightarrow> string \<Rightarrow> string \<Rightarrow> row \<Rightarrow> bool" where
  "coordinate_error lib long lat r \<longleftrightarrow>
     \<not> (\<exists>v x. dict_get r long = Inr v \<and> py_float lib v = Inr x)
     \<or> \<not> (\<exists>v y. dict_get r lat = Inr v \<and> py_float lib v = Inr y)"


subsection \<open>A library instance for evaluating the model\<close>

text \<open>
  Concrete examples need concrete library functions. \<open>sample_lib\<close> reads a number
  written as a non-empty string of decimal digits and rejects every other string
  (Python accepts more forms; the examples use none of them), and it covers the
  polygons that are rectangles with sides parallel to the axes: a shape is the
  bounding box of the exterior ring, \<open>contains\<close> holds in the interior only, and the
  nearest point of a box is the clamped point. On such rectangles this is what the
  planar geometry of shapely computes.
\<close>

datatype box = Box real real real real

fun digits_value :: "nat \<Rightarrow> string \<Rightarrow> nat option" where
  "digits_value acc [] = Some acc"
| "digits_value acc (c # cs) =
     (let n = (of_char c :: nat)
      in if 48 \<le> n \<and> n \<le> 57 then digits_value (10 * acc + (n - 48)) cs else None)"

definition sample_float :: "string \<Rightarrow> real option" where
  "sample_float s = (if s = [] then None else map_option real (digits_value 0 s))"

fun coord :: "json \<Rightarrow> (real \<times> real) option" where
  "coord (JArr [JNum a, JNum b]) = Some (a, b)"
| "coord _ = None"

fun ring_box :: "(real \<times> real) list \<Rightarrow> error + box" where
  "ring_box [] = Inl LibraryError"
| "ring_box (p # ps) =
     Inr (Box (fold min (map fst ps) (fst p)) (fold min (map snd ps) (snd p))
              (fold max (map fst ps) (fst p)) (fold max (map snd ps) (snd p)))"

fun sample_shape :: "json \<Rightarrow> error + box" where
  "sample_shape (JObj g) =
     (if map_of g ''type'' = Some (JStr ''Polygon'') then
        (case map_of g ''coordinates'' of
           Some (JArr (JArr ring # holes)) \<Rightarrow>
             (case those (map coord ring) of
                None \<Rightarrow> Inl LibraryError
              | Some ps \<Rightarrow> ring_box ps)
         | _ \<Rightarrow> Inl LibraryError)
      else Inl LibraryError)"
| "sample_shape _ = Inl LibraryError"

fun sample_contains :: "box \<Rightarrow> point \<Rightarrow> bool" where
  "sample_contains (Box x0 y0 x1 y1) (Point a b) = (x0 < a \<and> a < x1 \<and> y0 < b \<and> b < y1)"

fun sample_nearest_points :: "box \<Rightarrow> point \<Rightarrow> point" where
  "sample_nearest_points (Box x0 y0 x1 y1) (Point a b) =
     Point (max x0 (min x1 a)) (max y0 (min y1 b))"

definition sample_lib :: "box pylib" where
  "sample_lib =
     \<lparr>lib_float = sample_float, lib_shape = sample_shape,
      lib_contains = sample_contains, lib_nearest_points = sample_nearest_points\<rparr>"

text \<open>
  A rectangle as a GeoJSON feature named \<open>name\<close>; the square of the specification's
  scenario is \<open>rect_feature ''A'' 0 0 2 2\<close>.
\<close>

definition rect_feature :: "string \<Rightarrow> real \<Rightarrow> real \<Rightarrow> real \<Rightarrow> real \<Rightarrow> json" where
  "rect_feature name x0 y0 x1 y1 =
     JObj [(''type'', JStr ''Feature''),
           (''properties'', JObj [(''shapeName'', JStr name)]),
           (''geometry'',
              JObj [(''type'', JStr ''Polygon''),
                    (''coordinates'',
                       JArr [JArr [JArr [JNum x0, JNum y0], JArr [JNum x0, JNum y1],
                                   JArr [JNum x1, JNum y1], JArr [JNum x1, JNum y0],
                                   JArr [JNum x0, JNum y0]]])])]"

definition feature_collection :: "json list \<Rightarrow> json" where
  "feature_collection fs = JObj [(''type'', JStr ''FeatureCollection''), (''features'', JArr fs)]"


definition squares_overlapping :: json where
  "squares_overlapping = feature_collection [rect_feature ''A'' 0 0 2 2, rect_feature ''B'' 1 1 3 3]"

text \<open>A feature with the square as geometry and no \<open>properties\<close> entry.\<close>

definition unnamed_square :: json where
  "unnamed_square =
     JObj [(''type'', JStr ''Feature''),
           (''geometry'',
              JObj [(''type'', JStr ''Polygon''),
                    (''coordinates'',
                       JArr [JArr [JArr [JNum 0, JNum 0], JArr [JNum 0, JNum 2],
                                   JArr [JNum 2, JNum 2], JArr [JNum 2, JNum 0],
                                   JArr [JNum 0, JNum 0]]])])]"

section \<open>Properties\<close>

subsection \<open>Comprehensions, minimum and index\<close>

lemma traverse_length: "traverse f xs = Inr ys \<Longrightarrow> length ys = length xs"
  by (induction xs arbitrary: ys) (auto split: sum.splits)

lemma traverse_nth: "traverse f xs = Inr ys \<Longrightarrow> i < length xs \<Longrightarrow> f (xs ! i) = Inr (ys ! i)"
proof (induction xs arbitrary: ys i)
  case Nil
  then show ?case by simp
next
  case (Cons x xs)
  then show ?case by (cases i) (auto split: sum.splits)
qed

lemma traverse_map: "(\<And>x. x \<in> set xs \<Longrightarrow> f x = Inr (g x)) \<Longrightarrow> traverse f xs = Inr (map g xs)"
  by (induction xs) auto

lemma traverse_fails: "x \<in> set xs \<Longrightarrow> f x = Inl e \<Longrightarrow> \<exists>e'. traverse f xs = Inl e'"
  by (induction xs) (auto split: sum.splits)

lemma init_shapes:
  assumes "GeoBoundary_init lib d = Inr b"
  shows "traverse (GeoBoundary_to_shape lib) (places b) = Inr (shapes b)"
  using assms by (auto simp: GeoBoundary_init_def split: sum.splits)

lemma init_length: "GeoBoundary_init lib d = Inr b \<Longrightarrow> length (shapes b) = length (places b)"
  by (drule init_shapes) (simp add: traverse_length)




lemma search_eq:
  assumes "length ss = length ps"
  shows "traverse (\<lambda>ix. list_get ps (fst ix)) (filter (\<lambda>ix. P (snd ix)) (enumerate 0 ss))
    = Inr (map (\<lambda>i. ps ! i) (filter (\<lambda>i. P (ss ! i)) [0..<length ss]))"
proof -
  have e: "filter (\<lambda>ix. P (snd ix)) (enumerate 0 ss)
      = map (\<lambda>i. (i, ss ! i)) (filter (\<lambda>i. P (ss ! i)) [0..<length ss])"
  proof -
    have "zip [0..<length ss] ss = map (\<lambda>i. (i, ss ! i)) [0..<length ss]"
      by (rule nth_equalityI) auto
    then show ?thesis
      by (simp add: enumerate_eq_zip filter_map comp_def)
  qed
  show ?thesis
    unfolding e using assms
    by (subst traverse_map [where g = "\<lambda>ix. ps ! fst ix"]) (auto simp: list_get_def comp_def)
qed

subsection \<open>The haversine distance\<close>


















subsection \<open>GeoBoundary: find\<close>

lemma init_to_shape:
  assumes "GeoBoundary_init lib d = Inr b" "k < length (shapes b)"
  shows "GeoBoundary_to_shape lib (places b ! k) = Inr (shapes b ! k)"
  using traverse_nth [OF init_shapes [OF assms(1)], of k] assms init_length [OF assms(1)]
  by simp


lemma find_search:
  assumes "length (shapes b) = length (places b)"
    and "filter (\<lambda>i. lib_contains lib (shapes b ! i) pt) [0..<length (shapes b)] \<noteq> []"
  shows "GeoBoundary_find lib b pt =
    Inr (map (\<lambda>i. places b ! i)
          (filter (\<lambda>i. lib_contains lib (shapes b ! i) pt) [0..<length (shapes b)]))"
  unfolding GeoBoundary_find_def
  using assms(2)
  by (simp add: search_eq [OF assms(1), where P = "\<lambda>s. lib_contains lib s pt"])

lemma filter_first:
  assumes "k < n" "P k" "\<forall>j<k. \<not> P j"
  shows "filter P [0..<n] = k # filter P [Suc k..<n]"
proof -
  have "[0..<n] = [0..<k] @ [k..<n]"
    using assms(1) upt_add_eq_append [of 0 k "n - k"] by simp
  moreover have "[k..<n] = k # [Suc k..<n]"
    using assms(1) by (simp add: upt_conv_Cons)
  moreover have "filter P [0..<k] = []" using assms(3) by (auto simp: filter_empty_conv)
  ultimately show ?thesis using assms(2) by simp
qed


lemma find_empty:
  assumes "shapes b = []"
  shows "GeoBoundary_find lib b pt = Inl ValueError"
  using assms by (simp add: GeoBoundary_find_def)

lemmas sample_unfold =
  GeoBoundary_init_def feature_collection_def rect_feature_def GeoBoundary_to_shape_def
  sample_lib_def

text \<open>
  Claim C2. When some shape contains the point, \<open>find\<close> returns the features of all
  containing shapes in load order; the first of them belongs to the first containing
  shape, and when exactly one shape contains the point, that feature alone is returned.
  There is no other tie-break.
\<close>

theorem find_first_containing:
  assumes "GeoBoundary_init lib d = Inr b"
    and "k < length (shapes b)"
    and "lib_contains lib (shapes b ! k) pt"
    and "\<forall>j<k. \<not> lib_contains lib (shapes b ! j) pt"
  shows "GeoBoundary_find lib b pt =
           Inr (map (\<lambda>i. places b ! i)
                 (filter (\<lambda>i. lib_contains lib (shapes b ! i) pt) [0..<length (shapes b)]))
       \<and> (\<exists>rest. GeoBoundary_find lib b pt = Inr (places b ! k # rest))
       \<and> GeoBoundary_to_shape lib (places b ! k) = Inr (shapes b ! k)
       \<and> ((\<forall>j<length (shapes b). j \<noteq> k \<longrightarrow> \<not> lib_contains lib (shapes b ! j) pt)
            \<longrightarrow> GeoBoundary_find lib b pt = Inr [places b ! k])"
proof -
  let ?P = "\<lambda>i. lib_contains lib (shapes b ! i) pt"
  have f: "filter ?P [0..<length (shapes b)] = k # filter ?P [Suc k..<length (shapes b)]"
    using assms(2-4) by (intro filter_first) auto
  have 1: "GeoBoundary_find lib b pt = Inr (map (\<lambda>i. places b ! i) (filter ?P [0..<length (shapes b)]))"
    using f by (intro find_search init_length [OF assms(1)]) simp
  have 2: "\<exists>rest. GeoBoundary_find lib b pt = Inr (places b ! k # rest)"
    unfolding 1 f by simp
  have 3: "GeoBoundary_to_shape lib (places b ! k) = Inr (shapes b ! k)"
    by (rule init_to_shape [OF assms(1,2)])
  have 4: "GeoBoundary_find lib b pt = Inr [places b ! k]"
    if "\<forall>j<length (shapes b). j \<noteq> k \<longrightarrow> \<not> ?P j"
  proof -
    have "filter ?P [Suc k..<length (shapes b)] = []"
      using that by (auto simp: filter_empty_conv)
    then show ?thesis unfolding 1 f by simp
  qed
  from 1 2 3 4 show ?thesis by blast
qed

theorem find_first_containing_witness:
  "GeoBoundary_init sample_lib squares_overlapping =
     Inr \<lparr>data = squares_overlapping,
          places = [rect_feature ''A'' 0 0 2 2, rect_feature ''B'' 1 1 3 3],
          shapes = [Box 0 0 2 2, Box 1 1 3 3]\<rparr>
   \<and> sample_contains (Box 0 0 2 2) (Point (3 / 2) (3 / 2))
   \<and> GeoBoundary_find sample_lib
        \<lparr>data = squares_overlapping,
         places = [rect_feature ''A'' 0 0 2 2, rect_feature ''B'' 1 1 3 3],
         shapes = [Box 0 0 2 2, Box 1 1 3 3]\<rparr> (Point (3 / 2) (3 / 2))
     = Inr [rect_feature ''A'' 0 0 2 2, rect_feature ''B'' 1 1 3 3]"
proof -
  let ?b = "\<lparr>data = squares_overlapping,
          places = [rect_feature ''A'' 0 0 2 2, rect_feature ''B'' 1 1 3 3],
          shapes = [Box 0 0 2 2, Box 1 1 3 3]\<rparr>"
  have i: "GeoBoundary_init sample_lib squares_overlapping = Inr ?b"
    by (simp add: squares_overlapping_def sample_unfold)
  have c: "lib_contains sample_lib (shapes ?b ! 0) (Point (3 / 2) (3 / 2))"
    by (simp add: sample_lib_def)
  from find_first_containing [OF i _ c] i show ?thesis
    by (simp add: sample_lib_def upt_rec)
qed





subsection \<open>Loading a boundary file\<close>

lemma traverse_Inr_iff:
  "(\<exists>ys. traverse f xs = Inr ys) \<longleftrightarrow> (\<forall>x \<in> set xs. \<exists>y. f x = Inr y)"
proof (induction xs)
  case Nil
  then show ?case by simp
next
  case (Cons x xs)
  show ?case
  proof (cases "f x")
    case (Inl e)
    then show ?thesis by auto
  next
    case (Inr y)
    show ?thesis
    proof (cases "traverse f xs")
      case (Inl e)
      with Inr Cons show ?thesis by auto
    next
      case (Inr ys)
      with \<open>f x = Inr y\<close> Cons show ?thesis by auto
    qed
  qed
qed

lemma to_shape_Inr_iff:
  "(\<exists>s. GeoBoundary_to_shape lib f = Inr s)
    \<longleftrightarrow> (\<exists>g s. subscript f ''geometry'' = Inr g \<and> lib_shape lib g = Inr s)"
  by (auto simp: GeoBoundary_to_shape_def split: sum.splits)

lemma init_Inr_iff:
  "(\<exists>b. GeoBoundary_init lib d = Inr b)
    \<longleftrightarrow> (\<exists>fs ps. subscript d ''features'' = Inr fs \<and> py_iter fs = Inr ps
          \<and> (\<forall>f \<in> set ps. \<exists>g s. subscript f ''geometry'' = Inr g \<and> lib_shape lib g = Inr s))"
proof -
  have "(\<exists>b. GeoBoundary_init lib d = Inr b)
    \<longleftrightarrow> (\<exists>fs ps. subscript d ''features'' = Inr fs \<and> py_iter fs = Inr ps
          \<and> (\<exists>ss. traverse (GeoBoundary_to_shape lib) ps = Inr ss))"
    by (auto simp: GeoBoundary_init_def split: sum.splits)
  then show ?thesis
    unfolding traverse_Inr_iff to_shape_Inr_iff .
qed

lemma init_fails_run:
  assumes "GeoBoundary_init lib d = Inl e" "d \<in> set boundary_files"
  shows "\<exists>e'. CSV2GeoJSON_init lib csv_file long lat boundary_files = Inl e'"
proof -
  from traverse_fails [of d boundary_files "GeoBoundary_init lib" e] assms obtain e' where
    "traverse (GeoBoundary_init lib) boundary_files = Inl e'" by blast
  then show ?thesis by (simp add: CSV2GeoJSON_init_def)
qed

text \<open>
  Claim C3 (amended). Loading a boundary document succeeds exactly when the document has
  a \<open>features\<close> entry that can be iterated and every feature has a \<open>geometry\<close> entry
  that the geometry library accepts; otherwise it fails, and the constructor of
  \<open>CSV2GeoJSON\<close> then fails before any record is read. The load does not look at
  \<open>properties\<close> or \<open>shapeName\<close>, and checks no geometry type of its own.
\<close>

theorem boundary_load_succeeds_iff:
  "((\<exists>b. GeoBoundary_init lib d = Inr b)
      \<longleftrightarrow> (\<exists>fs ps. subscript d ''features'' = Inr fs \<and> py_iter fs = Inr ps
            \<and> (\<forall>f \<in> set ps. \<exists>g s. subscript f ''geometry'' = Inr g \<and> lib_shape lib g = Inr s)))
   \<and> (\<forall>e. GeoBoundary_init lib d = Inl e \<longrightarrow> d \<in> set boundary_files \<longrightarrow>
         (\<exists>e'. CSV2GeoJSON_init lib csv_file long lat boundary_files = Inl e'))"
  using init_Inr_iff [of lib d] init_fails_run [of lib d _ boundary_files csv_file long lat]
  by blast

theorem boundary_load_succeeds_iff_witness:
  "(\<exists>b. GeoBoundary_init sample_lib (feature_collection [rect_feature ''A'' 0 0 2 2]) = Inr b)
   \<and> GeoBoundary_init sample_lib (feature_collection [JObj [(''type'', JStr ''Feature'')]])
       = Inl KeyError
   \<and> (\<exists>e'. CSV2GeoJSON_init sample_lib [[''lon'', ''lat''], [''1'', ''1'']] ''lon'' ''lat''
               [feature_collection [JObj [(''type'', JStr ''Feature'')]]] = Inl e')"
proof -
  let ?d = "feature_collection [rect_feature ''A'' 0 0 2 2]"
  let ?bad = "feature_collection [JObj [(''type'', JStr ''Feature'')]]"
  have "\<exists>fs ps. subscript ?d ''features'' = Inr fs \<and> py_iter fs = Inr ps
      \<and> (\<forall>f \<in> set ps. \<exists>g s. subscript f ''geometry'' = Inr g \<and> lib_shape sample_lib g = Inr s)"
    by (simp add: feature_collection_def rect_feature_def sample_lib_def)
  then have 1: "\<exists>b. GeoBoundary_init sample_lib ?d = Inr b"
    using boundary_load_succeeds_iff [of sample_lib ?d] by blast
  have 2: "GeoBoundary_init sample_lib ?bad = Inl KeyError"
    by (simp add: sample_unfold)
  have "?bad \<in> set [?bad]" by simp
  with 2 have 3: "\<exists>e'. CSV2GeoJSON_init sample_lib [[''lon'', ''lat''], [''1'', ''1'']] ''lon'' ''lat''
               [?bad] = Inl e'"
    using boundary_load_succeeds_iff [of sample_lib ?bad "[?bad]"] by blast
  from 1 2 3 show ?thesis by blast
qed

text \<open>
  As stated the claim fails: a feature without \<open>properties.shapeName\<close> loads. The
  missing label is met only when a record resolves to the feature.
\<close>

theorem unlabelled_feature_loads:
  "subscript unnamed_square ''properties'' = Inl KeyError
   \<and> GeoBoundary_init sample_lib (feature_collection [unnamed_square])
       = Inr \<lparr>data = feature_collection [unnamed_square], places = [unnamed_square],
              shapes = [Box 0 0 2 2]\<rparr>
   \<and> region_name sample_lib
        \<lparr>data = feature_collection [unnamed_square], places = [unnamed_square],
         shapes = [Box 0 0 2 2]\<rparr> (Point 1 1) = Inl KeyError"
  by (simp add: unnamed_square_def feature_collection_def GeoBoundary_init_def
      GeoBoundary_to_shape_def sample_lib_def region_name_def GeoBoundary_find_def
      enumerate_eq_zip list_get_def)

subsection \<open>The join without boundary files\<close>

text \<open>
  Claim C8. With no boundary file the join leaves the table as \<open>DictCSV\<close> built it:
  the same records, field for field and in the same order, and the same header.
\<close>

theorem join_without_boundaries:
  "DictCSV_init csv_file = Inr c \<Longrightarrow>
   CSV2GeoJSON_init lib csv_file long lat [] =
     Inr \<lparr>boundaries = [], csv = c, long_col = long, lat_col = lat\<rparr>"
  by (simp add: CSV2GeoJSON_init_def)

theorem join_without_boundaries_witness:
  "DictCSV_init [[''lon'', ''lat''], [''1'', ''x''], [''7'', ''8'']] =
     Inr \<lparr>header = [''lon'', ''lat''],
          rows = [[(''lon'', JStr ''1''), (''lat'', JStr ''x'')],
                  [(''lon'', JStr ''7''), (''lat'', JStr ''8'')]],
          cols = [(''lon'', [JStr ''1'', JStr ''7'']), (''lat'', [JStr ''x'', JStr ''8''])]\<rparr>
   \<and> CSV2GeoJSON_init sample_lib [[''lon'', ''lat''], [''1'', ''x''], [''7'', ''8'']] ''lon'' ''lat'' [] =
     Inr \<lparr>boundaries = [],
          csv = \<lparr>header = [''lon'', ''lat''],
                  rows = [[(''lon'', JStr ''1''), (''lat'', JStr ''x'')],
                          [(''lon'', JStr ''7''), (''lat'', JStr ''8'')]],
                  cols = [(''lon'', [JStr ''1'', JStr ''7'']), (''lat'', [JStr ''x'', JStr ''8''])]\<rparr>,
          long_col = ''lon'', lat_col = ''lat''\<rparr>"
proof -
  have d: "DictCSV_init [[''lon'', ''lat''], [''1'', ''x''], [''7'', ''8'']] =
     Inr \<lparr>header = [''lon'', ''lat''],
          rows = [[(''lon'', JStr ''1''), (''lat'', JStr ''x'')],
                  [(''lon'', JStr ''7''), (''lat'', JStr ''8'')]],
          cols = [(''lon'', [JStr ''1'', JStr ''7'']), (''lat'', [JStr ''x'', JStr ''8''])]\<rparr>"
    by (simp add: py_dict_def)
  from join_without_boundaries [OF d, of sample_lib "''lon''" "''lat''"] d show ?thesis by simp
qed

subsection \<open>Markers\<close>

lemma to_feature_ok:
  assumes "dict_get row (long_col self) = Inr lo" "py_float lib lo = Inr x"
    and "dict_get row (lat_col self) = Inr la" "py_float lib la = Inr y"
  shows "CSV2GeoJSON_to_feature lib self row =
    Inr (JObj [(''type'', JStr ''Feature''), (''properties'', JObj row),
               (''geometry'', JObj [(''coordinates'', JArr [JNum x, JNum y]),
                                    (''type'', JStr ''Point'')])])"
  using assms by (simp add: CSV2GeoJSON_to_feature_def)

text \<open>
  Claim C6. When the two coordinate cells of every record are present and parse,
  \<open>dump_markers\<close> yields one feature per record, in the order of the records; the
  \<open>properties\<close> of a feature are the record itself, with every field it holds, and its
  geometry is a \<open>Point\<close> whose coordinates are the two parsed numbers, longitude first.
\<close>

theorem dump_markers_features:
  assumes "\<forall>row \<in> set (rows (csv self)). \<exists>lo la x y.
      dict_get row (long_col self) = Inr lo \<and> py_float lib lo = Inr x
    \<and> dict_get row (lat_col self) = Inr la \<and> py_float lib la = Inr y"
  shows "\<exists>fs. CSV2GeoJSON_dump_markers lib self =
             Inr (JObj [(''type'', JStr ''FeatureCollection''), (''features'', JArr fs)])
    \<and> length fs = length (rows (csv self))
    \<and> (\<forall>i<length (rows (csv self)). \<exists>lo la x y.
          dict_get (rows (csv self) ! i) (long_col self) = Inr lo \<and> py_float lib lo = Inr x
        \<and> dict_get (rows (csv self) ! i) (lat_col self) = Inr la \<and> py_float lib la = Inr y
        \<and> fs ! i =
            JObj [(''type'', JStr ''Feature''), (''properties'', JObj (rows (csv self) ! i)),
                  (''geometry'', JObj [(''coordinates'', JArr [JNum x, JNum y]),
                                       (''type'', JStr ''Point'')])])"
proof -
  have "\<forall>row \<in> set (rows (csv self)). \<exists>f. CSV2GeoJSON_to_feature lib self row = Inr f"
    using assms by (meson to_feature_ok)
  then obtain fs where fs: "traverse (CSV2GeoJSON_to_feature lib self) (rows (csv self)) = Inr fs"
    using traverse_Inr_iff [of "CSV2GeoJSON_to_feature lib self" "rows (csv self)"] by blast
  have len: "length fs = length (rows (csv self))" by (rule traverse_length [OF fs])
  have nth: "\<exists>lo la x y.
          dict_get (rows (csv self) ! i) (long_col self) = Inr lo \<and> py_float lib lo = Inr x
        \<and> dict_get (rows (csv self) ! i) (lat_col self) = Inr la \<and> py_float lib la = Inr y
        \<and> fs ! i =
            JObj [(''type'', JStr ''Feature''), (''properties'', JObj (rows (csv self) ! i)),
                  (''geometry'', JObj [(''coordinates'', JArr [JNum x, JNum y]),
                                       (''type'', JStr ''Point'')])]"
    if i: "i < length (rows (csv self))" for i
  proof -
    from assms i obtain lo la x y where c:
      "dict_get (rows (csv self) ! i) (long_col self) = Inr lo" "py_float lib lo = Inr x"
      "dict_get (rows (csv self) ! i) (lat_col self) = Inr la" "py_float lib la = Inr y"
      by (meson nth_mem)
    from traverse_nth [OF fs i] to_feature_ok [OF c] c show ?thesis by auto
  qed
  from fs len nth show ?thesis
    by (simp add: CSV2GeoJSON_dump_markers_def)
qed

theorem dump_markers_features_witness:
  "CSV2GeoJSON_dump_markers sample_lib
     \<lparr>boundaries = [],
      csv = \<lparr>header = [''lon'', ''lat'', ''_geo_admin0''],
              rows = [[(''lon'', JStr ''1''), (''lat'', JStr ''2''), (''_geo_admin0'', JStr ''A'')],
                      [(''lon'', JStr ''7''), (''lat'', JStr ''8''), (''_geo_admin0'', JStr ''B'')]],
              cols = []\<rparr>,
      long_col = ''lon'', lat_col = ''lat''\<rparr>
   = Inr (JObj [(''type'', JStr ''FeatureCollection''),
               (''features'', JArr [
                  JObj [(''type'', JStr ''Feature''),
                        (''properties'', JObj [(''lon'', JStr ''1''), (''lat'', JStr ''2''), (''_geo_admin0'', JStr ''A'')]),
                        (''geometry'', JObj [(''coordinates'', JArr [JNum 1, JNum 2]),
                                             (''type'', JStr ''Point'')])],
                  JObj [(''type'', JStr ''Feature''),
                        (''properties'', JObj [(''lon'', JStr ''7''), (''lat'', JStr ''8''), (''_geo_admin0'', JStr ''B'')]),
                        (''geometry'', JObj [(''coordinates'', JArr [JNum 7, JNum 8]),
                                             (''type'', JStr ''Point'')])]])])"
proof -
  let ?self = "\<lparr>boundaries = [],
      csv = \<lparr>header = [''lon'', ''lat'', ''_geo_admin0''],
              rows = [[(''lon'', JStr ''1''), (''lat'', JStr ''2''), (''_geo_admin0'', JStr ''A'')],
                      [(''lon'', JStr ''7''), (''lat'', JStr ''8''), (''_geo_admin0'', JStr ''B'')]],
              cols = []\<rparr>,
      long_col = ''lon'', lat_col = ''lat''\<rparr> :: box csv2geojson"
  have h: "\<forall>row \<in> set (rows (csv ?self)). \<exists>lo la x y.
      dict_get row (long_col ?self) = Inr lo \<and> py_float sample_lib lo = Inr x
    \<and> dict_get row (lat_col ?self) = Inr la \<and> py_float sample_lib la = Inr y"
    by (simp add: dict_get_def sample_lib_def sample_float_def)
  from dump_markers_features [OF h] obtain fs where fs:
    "CSV2GeoJSON_dump_markers sample_lib ?self =
             Inr (JObj [(''type'', JStr ''FeatureCollection''), (''features'', JArr fs)])"
    "length fs = length (rows (csv ?self))"
    "\<forall>i<length (rows (csv ?self)). \<exists>lo la x y.
          dict_get (rows (csv ?self) ! i) (long_col ?self) = Inr lo \<and> py_float sample_lib lo = Inr x
        \<and> dict_get (rows (csv ?self) ! i) (lat_col ?self) = Inr la \<and> py_float sample_lib la = Inr y
        \<and> fs ! i =
            JObj [(''type'', JStr ''Feature''), (''properties'', JObj (rows (csv ?self) ! i)),
                  (''geometry'', JObj [(''coordinates'', JArr [JNum x, JNum y]),
                                       (''type'', JStr ''Point'')])]"
    by blast
  have l2: "length fs = 2" using fs(2) by simp
  have "0 < length (rows (csv ?self))" "1 < length (rows (csv ?self))" by simp_all
  with fs(3) have 
    "\<exists>lo la x y.
          dict_get (rows (csv ?self) ! 0) (long_col ?self) = Inr lo \<and> py_float sample_lib lo = Inr x
        \<and> dict_get (rows (csv ?self) ! 0) (lat_col ?self) = Inr la \<and> py_float sample_lib la = Inr y
        \<and> fs ! 0 =
            JObj [(''type'', JStr ''Feature''), (''properties'', JObj (rows (csv ?self) ! 0)),
                  (''geometry'', JObj [(''coordinates'', JArr [JNum x, JNum y]),
                                       (''type'', JStr ''Point'')])]"
    "\<exists>lo la x y.
          dict_get (rows (csv ?self) ! 1) (long_col ?self) = Inr lo \<and> py_float sample_lib lo = Inr x
        \<and> dict_get (rows (csv ?self) ! 1) (lat_col ?self) = Inr la \<and> py_float sample_lib la = Inr y
        \<and> fs ! 1 =
            JObj [(''type'', JStr ''Feature''), (''properties'', JObj (rows (csv ?self) ! 1)),
                  (''geometry'', JObj [(''coordinates'', JArr [JNum x, JNum y]),
                                       (''type'', JStr ''Point'')])]"
    by blast+
  then have e: "fs ! 0 = JObj [(''type'', JStr ''Feature''),
                        (''properties'', JObj [(''lon'', JStr ''1''), (''lat'', JStr ''2''), (''_geo_admin0'', JStr ''A'')]),
                        (''geometry'', JObj [(''coordinates'', JArr [JNum 1, JNum 2]),
                                             (''type'', JStr ''Point'')])]"
    "fs ! 1 = JObj [(''type'', JStr ''Feature''),
                        (''properties'', JObj [(''lon'', JStr ''7''), (''lat'', JStr ''8''), (''_geo_admin0'', JStr ''B'')]),
                        (''geometry'', JObj [(''coordinates'', JArr [JNum 7, JNum 8]),
                                             (''type'', JStr ''Point'')])]"
    by (auto simp: dict_get_def sample_lib_def sample_float_def)
  have "fs = [fs ! 0, fs ! 1]"
    using l2 by (intro nth_equalityI) (auto simp: nth_Cons split: nat.splits)
  with e fs(1) show ?thesis by simp
qed

subsection \<open>DictCSV: the invariant of the rows\<close>

lemma keys_fold_update:
  "fst ` set (fold (\<lambda>kv d. AList.update (fst kv) (snd kv) d) kvs d0) = fst ` set kvs \<union> fst ` set d0"
  by (induction kvs arbitrary: d0) (auto simp: AList.dom_update)

lemma keys_py_dict: "fst ` set (py_dict kvs) = fst ` set kvs"
  by (simp add: py_dict_def keys_fold_update)

lemma set_alist_update: "set (AList.update k v al) \<subseteq> insert (k, v) (set al)"
  by (induction al) auto

lemma vals_fold_update:
  "set (fold (\<lambda>kv d. AList.update (fst kv) (snd kv) d) kvs d0) \<subseteq> set kvs \<union> set d0"
proof (induction kvs arbitrary: d0)
  case Nil
  then show ?case by simp
next
  case (Cons kv kvs)
  have "set (AList.update (fst kv) (snd kv) d0) \<subseteq> insert kv (set d0)"
    using set_alist_update [of "fst kv" "snd kv" d0] by simp
  with Cons [of "AList.update (fst kv) (snd kv) d0"] show ?case by auto
qed

lemma set_py_dict: "set (py_dict kvs) \<subseteq> set kvs"
  using vals_fold_update [of kvs "[]"] by (simp add: py_dict_def)

lemma keys_zip_same: "length xs = length ys \<Longrightarrow> fst ` set (zip xs ys) = set xs"
  by (metis map_fst_zip set_map)

lemma transpose_rect:
  assumes "\<forall>r \<in> set table. length r = n" "table \<noteq> []"
  shows "length (transpose table) = n" "\<forall>col \<in> set (transpose table). length col = length table"
proof -
  have t: "transpose table = map (\<lambda>i. map (\<lambda>j. table ! j ! i) [0..<length table]) [0..<n]"
    using assms by (intro transpose_rectangle) auto
  show "length (transpose table) = n" unfolding t by simp
  show "\<forall>col \<in> set (transpose table). length col = length table" unfolding t by auto
qed

lemma DictCSV_init_ok:
  assumes "\<forall>r \<in> set table. length r = length h"
  shows "\<exists>c. DictCSV_init (h # table) = Inr c \<and> header c = h
      \<and> rows c = map (\<lambda>i. py_dict (zip h (map JStr i))) table
      \<and> row_keys_ok c \<and> cols_ok c"
proof -
  let ?c = "\<lparr>header = h, rows = map (\<lambda>i. py_dict (zip h (map JStr i))) table,
             cols = py_dict (zip h (map (map JStr) (transpose table)))\<rparr>"
  have rect: "\<not> (\<exists>r \<in> set table. length r \<noteq> length (hd table))"
    using assms by (cases table) auto
  then have i: "DictCSV_init (h # table) = Inr ?c" by simp
  have rk: "row_keys_ok ?c"
    using assms by (auto simp: row_keys_ok_def keys_py_dict keys_zip_same)
  have ck: "cols_ok ?c"
  proof (cases "table = []")
    case True
    then show ?thesis by (simp add: cols_ok_def py_dict_def)
  next
    case False
    note tr = transpose_rect [OF assms False]
    have "fst ` set (cols ?c) = set h"
      using tr(1) by (simp add: keys_py_dict keys_zip_same)
    moreover have "length col = length table" if "map_of (cols ?c) k = Some col" for k col
    proof -
      from that have "(k, col) \<in> set (cols ?c)" by (rule map_of_SomeD)
      then have "(k, col) \<in> set (zip h (map (map JStr) (transpose table)))"
        using set_py_dict by fastforce
      then have "col \<in> set (map (map JStr) (transpose table))" by (rule set_zip_rightD)
      with tr(2) show ?thesis by auto
    qed
    ultimately show ?thesis by (simp add: cols_ok_def)
  qed
  from i rk ck show ?thesis by (intro exI [of _ ?c]) simp
qed

lemma add_col_ok:
  assumes "row_keys_ok c" "cols_ok c"
  shows "row_keys_ok (DictCSV_add_col c name)" "cols_ok (DictCSV_add_col c name)"
proof -
  show "row_keys_ok (DictCSV_add_col c name)"
    using assms(1) by (auto simp: row_keys_ok_def DictCSV_add_col_def AList.dom_update)
  show "cols_ok (DictCSV_add_col c name)"
    using assms(2)
    by (auto simp: cols_ok_def DictCSV_add_col_def AList.dom_update update_conv')
qed

lemma add_col_fields:
  "header (DictCSV_add_col c name) = header c @ [name]"
  "length (rows (DictCSV_add_col c name)) = length (rows c)"
  "\<forall>r \<in> set (rows (DictCSV_add_col c name)). map_of r name = Some (JStr [])"
  by (auto simp: DictCSV_add_col_def update_conv')

lemma list_set_Inr:
  "list_set xs i v = Inr ys \<longleftrightarrow> in_index_range i (length xs) \<and> ys = xs[py_position i (length xs) := v]"
  by (auto simp: list_set_def Let_def in_index_range_def py_position_def)

lemma set_cols_preserves:
  "set_cols ks cs i row = Inr cs' \<Longrightarrow>
     fst ` set cs' = fst ` set cs
   \<and> (\<forall>k col'. map_of cs' k = Some col' \<longrightarrow> (\<exists>col. map_of cs k = Some col \<and> length col' = length col))"
proof (induction ks arbitrary: cs)
  case Nil
  then show ?case by simp
next
  case (Cons k ks)
  from Cons.prems obtain v col col' where s:
    "dict_get row k = Inr v" "map_of cs k = Some col" "list_set col i v = Inr col'"
    "set_cols ks (AList.update k col' cs) i row = Inr cs'"
    by (auto split: sum.splits option.splits)
  have l: "length col' = length col" using s(3) by (auto simp: list_set_Inr)
  have kin: "k \<in> fst ` set cs" using s(2) by (metis domI dom_map_of_conv_image_fst)
  from Cons.IH [OF s(4)] have
    1: "fst ` set cs' = fst ` set (AList.update k col' cs)" and
    2: "\<forall>k' c'. map_of cs' k' = Some c' \<longrightarrow>
          (\<exists>c0. map_of (AList.update k col' cs) k' = Some c0 \<and> length c' = length c0)" by auto
  have "fst ` set cs' = fst ` set cs" using 1 kin by (auto simp: AList.dom_update)
  moreover have "\<exists>c0. map_of cs k' = Some c0 \<and> length c' = length c0"
    if "map_of cs' k' = Some c'" for k' c'
    using 2 [rule_format, OF that] s(2) l
    by (cases "k' = k") (auto simp: update_conv' split: if_splits)
  ultimately show ?case by blast
qed

lemma set_cols_succeeds:
  assumes "set ks \<subseteq> fst ` set row" "set ks \<subseteq> fst ` set cs"
    and "\<forall>k col. map_of cs k = Some col \<longrightarrow> length col = m"
    and "in_index_range i m"
  shows "\<exists>cs'. set_cols ks cs i row = Inr cs'"
  using assms
proof (induction ks arbitrary: cs)
  case Nil
  then show ?case by simp
next
  case (Cons k ks)
  from Cons.prems(1) obtain v where v: "map_of row k = Some v"
    by (metis list.set_intros(1) subsetD domD dom_map_of_conv_image_fst)
  from Cons.prems(2) obtain col where col: "map_of cs k = Some col"
    by (metis list.set_intros(1) subsetD domD dom_map_of_conv_image_fst)
  with Cons.prems(3) have len: "length col = m" by blast
  with Cons.prems(4) obtain col' where col': "list_set col i v = Inr col'" "length col' = m"
    by (auto simp: list_set_Inr)
  let ?cs = "AList.update k col' cs"
  have a: "set ks \<subseteq> fst ` set ?cs" using Cons.prems(2) by (auto simp: AList.dom_update)
  have b: "\<forall>k' c. map_of ?cs k' = Some c \<longrightarrow> length c = m"
    using Cons.prems(3) col'(2) by (auto simp: update_conv')
  have "set ks \<subseteq> fst ` set row" using Cons.prems(1) by simp
  from Cons.IH [OF this a b Cons.prems(4)] obtain cs' where "set_cols ks ?cs i row = Inr cs'" by blast
  with v col col'(1) show ?case by (simp add: dict_get_def)
qed

lemma set_row_Inr:
  assumes "DictCSV_set_row c i row = Inr c'"
  shows "header c' = header c" "in_index_range i (length (rows c))"
    "rows c' = (rows c)[py_position i (length (rows c)) := row]"
    "cols_ok c \<Longrightarrow> cols_ok c'"
    "row_keys_ok c \<Longrightarrow> fst ` set row = set (header c) \<Longrightarrow> row_keys_ok c'"
proof -
  from assms obtain rs cs where s: "list_set (rows c) i row = Inr rs"
    "set_cols (header c) (cols c) i row = Inr cs" "c' = \<lparr>header = header c, rows = rs, cols = cs\<rparr>"
    by (auto simp: DictCSV_set_row_def split: sum.splits)
  show "header c' = header c" using s(3) by simp
  show r: "in_index_range i (length (rows c))" using s(1) by (simp add: list_set_Inr)
  show rs: "rows c' = (rows c)[py_position i (length (rows c)) := row]"
    using s(1,3) by (simp add: list_set_Inr)
  note p = set_cols_preserves [OF s(2)]
  show "cols_ok c'" if "cols_ok c"
  proof -
    have "rows c \<noteq> []" using r by (auto simp: in_index_range_def)
    with that p s(3) rs show ?thesis
      unfolding cols_ok_def by (simp, metis)
  qed
  show "row_keys_ok c'" if "row_keys_ok c" "fst ` set row = set (header c)"
    using that rs s(3) unfolding row_keys_ok_def
    by (auto dest!: set_update_subset_insert [THEN subsetD])
qed

lemma set_row_succeeds:
  assumes "cols_ok c" "in_index_range i (length (rows c))" "set (header c) \<subseteq> fst ` set row"
  shows "\<exists>c'. DictCSV_set_row c i row = Inr c'"
proof -
  have ne: "rows c \<noteq> []" using assms(2) by (auto simp: in_index_range_def)
  obtain rs where rs: "list_set (rows c) i row = Inr rs"
    using assms(2) by (auto simp: list_set_Inr)
  have "\<exists>cs. set_cols (header c) (cols c) i row = Inr cs"
    using assms ne by (intro set_cols_succeeds [where m = "length (rows c)"]) (auto simp: cols_ok_def)
  with rs show ?thesis by (auto simp: DictCSV_set_row_def)
qed

lemma join_row_Inr:
  assumes "join_row lib b cn lo la c ir = Inr c'"
  shows "\<exists>pt region. row_point lib lo la (snd ir) = Inr pt \<and> region_name lib b pt = Inr region
     \<and> DictCSV_set_row c (int (fst ir)) (AList.update cn region (snd ir)) = Inr c'"
  using assms by (auto simp: join_row_def split: sum.splits)

lemma join_rows_preserves:
  assumes "join_rows lib b cn lo la irs c = Inr c'"
    and "row_keys_ok c" "cols_ok c"
    and "\<forall>ir \<in> set irs. fst ` set (snd ir) = set (header c)"
    and "cn \<in> set (header c)"
  shows "row_keys_ok c' \<and> cols_ok c' \<and> header c' = header c \<and> length (rows c') = length (rows c)"
  using assms
proof (induction irs arbitrary: c)
  case Nil
  then show ?case by simp
next
  case (Cons ir irs)
  from Cons.prems(1) obtain c1 where c1: "join_row lib b cn lo la c ir = Inr c1"
    "join_rows lib b cn lo la irs c1 = Inr c'"
    by (auto split: sum.splits)
  from join_row_Inr [OF c1(1)] obtain region where
    s: "DictCSV_set_row c (int (fst ir)) (AList.update cn region (snd ir)) = Inr c1" by blast
  have k: "fst ` set (AList.update cn region (snd ir)) = set (header c)"
    using Cons.prems(4,5) by (auto simp: AList.dom_update)
  note r = set_row_Inr [OF s]
  have h: "header c1 = header c" by (rule r(1))
  have 1: "row_keys_ok c1" by (rule r(5) [OF Cons.prems(2) k])
  have 2: "cols_ok c1" by (rule r(4) [OF Cons.prems(3)])
  have 3: "\<forall>ir \<in> set irs. fst ` set (snd ir) = set (header c1)" using Cons.prems(4) h by simp
  have 4: "cn \<in> set (header c1)" using Cons.prems(5) h by simp
  have l: "length (rows c1) = length (rows c)" using r(3) by simp
  from Cons.IH [OF c1(2) 1 2 3 4] h l show ?case by simp
qed

lemma join_levels_preserves:
  assumes "join_levels lib lo la lbs c = Inr c'"
    and "row_keys_ok c" "cols_ok c"
  shows "row_keys_ok c' \<and> cols_ok c' \<and> length (rows c') = length (rows c)"
  using assms
proof (induction lbs arbitrary: c)
  case Nil
  then show ?case by simp
next
  case (Cons lb lbs)
  let ?cn = "col_name (fst lb)"
  let ?c1 = "DictCSV_add_col c ?cn"
  from Cons.prems(1) obtain c2 where c2:
    "join_rows lib (snd lb) ?cn lo la (enumerate 0 (rows ?c1)) ?c1 = Inr c2"
    "join_levels lib lo la lbs c2 = Inr c'"
    by (auto simp: Let_def split: sum.splits)
  note a = add_col_ok [OF Cons.prems(2,3), of ?cn]
  have k: "\<forall>ir \<in> set (enumerate 0 (rows ?c1)). fst ` set (snd ir) = set (header ?c1)"
  proof
    fix ir assume "ir \<in> set (enumerate 0 (rows ?c1))"
    then have "snd ir \<in> set (rows ?c1)"
      by (metis enumerate_eq_zip prod.collapse set_zip_rightD)
    with a(1) show "fst ` set (snd ir) = set (header ?c1)" by (simp add: row_keys_ok_def)
  qed
  have cn: "?cn \<in> set (header ?c1)" by (simp add: add_col_fields)
  from join_rows_preserves [OF c2(1) a k cn]
  have p: "row_keys_ok c2" "cols_ok c2" "length (rows c2) = length (rows ?c1)" by simp_all
  from Cons.IH [OF c2(2) p(1,2)] p(3) show ?case by (simp add: add_col_fields)
qed

lemma init_preserves:
  assumes "CSV2GeoJSON_init lib (h # table) long lat boundary_files = Inr self"
    and "\<forall>r \<in> set table. length r = length h"
  shows "row_keys_ok (csv self) \<and> cols_ok (csv self)"
proof -
  from DictCSV_init_ok [OF assms(2)] obtain c where c: "DictCSV_init (h # table) = Inr c"
    "row_keys_ok c" "cols_ok c" by blast
  show ?thesis
  proof (cases "length boundary_files = 0")
    case True
    with assms(1) c show ?thesis
      by (auto simp: CSV2GeoJSON_init_def split: sum.splits)
  next
    case False
    with assms(1) c(1) obtain bs c' where
      "join_levels lib long lat (enumerate 0 bs) c = Inr c'" "csv self = c'"
      by (auto simp: CSV2GeoJSON_init_def split: sum.splits)
    with join_levels_preserves [OF this(1) c(2,3)] show ?thesis by simp
  qed
qed

text \<open>
  Claim C10 (amended). That every row has exactly the header's fields (\<open>row_keys_ok\<close>)
  holds after construction from rows as long as the header; \<open>add_col\<close> keeps it, appends
  the name to the header and gives every row the new field with the empty string;
  \<open>set_row\<close> at an index in range, with a row whose fields are exactly the header's,
  succeeds and keeps it; and it holds of the table a successful join leaves, every step
  of the join being an \<open>add_col\<close> or such a \<open>set_row\<close>.
\<close>

theorem dictcsv_rows_invariant:
  "((\<forall>r \<in> set table. length r = length h) \<longrightarrow>
      (\<exists>c. DictCSV_init (h # table) = Inr c \<and> header c = h \<and> row_keys_ok c \<and> cols_ok c))
   \<and> (row_keys_ok c \<and> cols_ok c \<longrightarrow>
        row_keys_ok (DictCSV_add_col c name) \<and> cols_ok (DictCSV_add_col c name)
      \<and> header (DictCSV_add_col c name) = header c @ [name]
      \<and> (\<forall>r \<in> set (rows (DictCSV_add_col c name)). map_of r name = Some (JStr [])))
   \<and> (row_keys_ok c \<and> cols_ok c \<and> in_index_range row_id (length (rows c))
        \<and> fst ` set row = set (header c) \<longrightarrow>
        (\<exists>c'. DictCSV_set_row c row_id row = Inr c' \<and> header c' = header c
            \<and> rows c' = (rows c)[py_position row_id (length (rows c)) := row]
            \<and> row_keys_ok c' \<and> cols_ok c'))
   \<and> ((\<forall>r \<in> set table. length r = length h)
        \<and> CSV2GeoJSON_init lib (h # table) long lat boundary_files = Inr self \<longrightarrow>
        row_keys_ok (csv self) \<and> cols_ok (csv self))"
proof -
  have 1: "(\<forall>r \<in> set table. length r = length h) \<longrightarrow>
      (\<exists>c. DictCSV_init (h # table) = Inr c \<and> header c = h \<and> row_keys_ok c \<and> cols_ok c)"
    using DictCSV_init_ok [of table h] by blast
  have 2: "row_keys_ok c \<and> cols_ok c \<longrightarrow>
        row_keys_ok (DictCSV_add_col c name) \<and> cols_ok (DictCSV_add_col c name)
      \<and> header (DictCSV_add_col c name) = header c @ [name]
      \<and> (\<forall>r \<in> set (rows (DictCSV_add_col c name)). map_of r name = Some (JStr []))"
    using add_col_ok [of c name] add_col_fields [of c name] by blast
  have 3: "\<exists>c'. DictCSV_set_row c row_id row = Inr c' \<and> header c' = header c
            \<and> rows c' = (rows c)[py_position row_id (length (rows c)) := row]
            \<and> row_keys_ok c' \<and> cols_ok c'"
    if "row_keys_ok c" "cols_ok c" "in_index_range row_id (length (rows c))"
      "fst ` set row = set (header c)"
  proof -
    have "set (header c) \<subseteq> fst ` set row" using that(4) by simp
    from set_row_succeeds [OF that(2,3) this] obtain c' where
      c': "DictCSV_set_row c row_id row = Inr c'" by blast
    from set_row_Inr [OF c'] that c' show ?thesis by blast
  qed
  have 4: "(\<forall>r \<in> set table. length r = length h)
        \<and> CSV2GeoJSON_init lib (h # table) long lat boundary_files = Inr self \<longrightarrow>
        row_keys_ok (csv self) \<and> cols_ok (csv self)"
    using init_preserves [of lib h table long lat boundary_files self] by blast
  from 1 2 3 4 show ?thesis by blast
qed

text \<open>
  As stated the claim fails: a row that contains all header fields and one more is
  stored by \<open>set_row\<close> as it is, and the invariant is lost.
\<close>

theorem set_row_extra_field:
  "DictCSV_init [[''a''], [''1'']] =
     Inr \<lparr>header = [''a''], rows = [[(''a'', JStr ''1'')]], cols = [(''a'', [JStr ''1''])]\<rparr>
   \<and> row_keys_ok \<lparr>header = [''a''], rows = [[(''a'', JStr ''1'')]], cols = [(''a'', [JStr ''1''])]\<rparr>
   \<and> set [''a''] \<subseteq> fst ` set [(''a'', JStr ''1''), (''b'', JStr ''2'')]
   \<and> DictCSV_set_row
        \<lparr>header = [''a''], rows = [[(''a'', JStr ''1'')]], cols = [(''a'', [JStr ''1''])]\<rparr> 0
        [(''a'', JStr ''1''), (''b'', JStr ''2'')]
      = Inr \<lparr>header = [''a''], rows = [[(''a'', JStr ''1''), (''b'', JStr ''2'')]],
             cols = [(''a'', [JStr ''1''])]\<rparr>
   \<and> \<not> row_keys_ok \<lparr>header = [''a''], rows = [[(''a'', JStr ''1''), (''b'', JStr ''2'')]],
             cols = [(''a'', [JStr ''1''])]\<rparr>"
  by (simp add: py_dict_def row_keys_ok_def DictCSV_set_row_def list_set_def dict_get_def)


lemmas join_unfold =
  CSV2GeoJSON_init_def GeoBoundary_init_def feature_collection_def rect_feature_def
  GeoBoundary_to_shape_def sample_lib_def py_dict_def enumerate_eq_zip DictCSV_add_col_def
  join_row_def row_point_def dict_get_def sample_float_def region_name_def GeoBoundary_find_def
  list_get_def DictCSV_set_row_def list_set_def col_name_def str_nat.simps digit_char_def upt_rec

theorem dictcsv_rows_invariant_witness:
  "DictCSV_init [[''lon'', ''lat''], [''1'', ''1'']] =
     Inr \<lparr>header = [''lon'', ''lat''],
          rows = [[(''lon'', JStr ''1''), (''lat'', JStr ''1'')]],
          cols = [(''lon'', [JStr ''1'']), (''lat'', [JStr ''1''])]\<rparr>
   \<and> row_keys_ok \<lparr>header = [''lon'', ''lat''],
          rows = [[(''lon'', JStr ''1''), (''lat'', JStr ''1'')]],
          cols = [(''lon'', [JStr ''1'']), (''lat'', [JStr ''1''])]\<rparr>
   \<and> row_keys_ok (DictCSV_add_col \<lparr>header = [''lon'', ''lat''],
          rows = [[(''lon'', JStr ''1''), (''lat'', JStr ''1'')]],
          cols = [(''lon'', [JStr ''1'']), (''lat'', [JStr ''1''])]\<rparr> ''x'')
   \<and> (\<exists>c'. DictCSV_set_row \<lparr>header = [''lon'', ''lat''],
          rows = [[(''lon'', JStr ''1''), (''lat'', JStr ''1'')]],
          cols = [(''lon'', [JStr ''1'']), (''lat'', [JStr ''1''])]\<rparr> (- 1)
          [(''lon'', JStr ''5''), (''lat'', JStr ''6'')] = Inr c'
        \<and> rows c' = [[(''lon'', JStr ''5''), (''lat'', JStr ''6'')]] \<and> row_keys_ok c')
   \<and> map_sum id csv (CSV2GeoJSON_init sample_lib [[''lon'', ''lat''], [''1'', ''1'']] ''lon'' ''lat''
        [feature_collection [rect_feature ''A'' 0 0 2 2]])
      = Inr \<lparr>header = [''lon'', ''lat'', ''_geo_admin0''],
             rows = [[(''lon'', JStr ''1''), (''lat'', JStr ''1''), (''_geo_admin0'', JStr ''A'')]],
             cols = [(''lon'', [JStr ''1'']), (''lat'', [JStr ''1'']), (''_geo_admin0'', [JStr ''A''])]\<rparr>
   \<and> row_keys_ok \<lparr>header = [''lon'', ''lat'', ''_geo_admin0''],
             rows = [[(''lon'', JStr ''1''), (''lat'', JStr ''1''), (''_geo_admin0'', JStr ''A'')]],
             cols = [(''lon'', [JStr ''1'']), (''lat'', [JStr ''1'']), (''_geo_admin0'', [JStr ''A''])]\<rparr>"
proof -
  let ?h = "[''lon'', ''lat'']"
  let ?table = "[[''1'', ''1'']]"
  let ?c = "\<lparr>header = [''lon'', ''lat''],
          rows = [[(''lon'', JStr ''1''), (''lat'', JStr ''1'')]],
          cols = [(''lon'', [JStr ''1'']), (''lat'', [JStr ''1''])]\<rparr>"
  let ?row = "[(''lon'', JStr ''5''), (''lat'', JStr ''6'')]"
  let ?files = "[feature_collection [rect_feature ''A'' 0 0 2 2]]"
  let ?c1 = "\<lparr>header = [''lon'', ''lat'', ''_geo_admin0''],
             rows = [[(''lon'', JStr ''1''), (''lat'', JStr ''1''), (''_geo_admin0'', JStr ''A'')]],
             cols = [(''lon'', [JStr ''1'']), (''lat'', [JStr ''1'']), (''_geo_admin0'', [JStr ''A''])]\<rparr>"
  obtain self where self: "CSV2GeoJSON_init sample_lib (?h # ?table) ''lon'' ''lat'' ?files = Inr self"
    "csv self = ?c1"
    by (simp add: join_unfold)
  note T = dictcsv_rows_invariant
    [of ?table ?h ?c "''x''" "- 1" ?row sample_lib "''lon''" "''lat''" ?files self]
  have rect: "\<forall>r \<in> set ?table. length r = length ?h" by simp
  have i: "DictCSV_init (?h # ?table) = Inr ?c" by (simp add: py_dict_def)
  from T rect i have a: "row_keys_ok ?c \<and> cols_ok ?c" by auto
  with T have b: "row_keys_ok (DictCSV_add_col ?c ''x'')" by blast
  have r: "in_index_range (- 1) (length (rows ?c))" "fst ` set ?row = set (header ?c)"
    by (auto simp: in_index_range_def)
  with T a have "\<exists>c'. DictCSV_set_row ?c (- 1) ?row = Inr c' \<and> header c' = header ?c
            \<and> rows c' = (rows ?c)[py_position (- 1) (length (rows ?c)) := ?row]
            \<and> row_keys_ok c' \<and> cols_ok c'" by blast
  then have s: "\<exists>c'. DictCSV_set_row ?c (- 1) ?row = Inr c' \<and> rows c' = [?row] \<and> row_keys_ok c'"
    by (auto simp: py_position_def)
  from T rect self have j: "row_keys_ok ?c1" by auto
  from i a b s j self show ?thesis by simp
qed

subsection \<open>Records with a bad coordinate\<close>

lemma row_point_fails:
  assumes "coordinate_error lib lo la r"
  shows "\<exists>e. row_point lib lo la r = Inl e"
  using assms unfolding coordinate_error_def row_point_def
  by (auto split: sum.splits)

lemma to_feature_fails:
  assumes "coordinate_error lib (long_col self) (lat_col self) r"
  shows "\<exists>e. CSV2GeoJSON_to_feature lib self r = Inl e"
  using assms unfolding coordinate_error_def CSV2GeoJSON_to_feature_def
  by (auto split: sum.splits)

lemma dict_get_update:
  "dict_get (AList.update k v r) k' = (if k' = k then Inr v else dict_get r k')"
  by (simp add: dict_get_def update_conv')

lemma coordinate_error_add_col:
  assumes "coordinate_error lib lo la r" "lib_float lib [] = None"
  shows "coordinate_error lib lo la (AList.update cn (JStr []) r)"
  using assms unfolding coordinate_error_def dict_get_update
  by (cases "lo = cn"; cases "la = cn") auto

lemma join_rows_fails:
  assumes "ir \<in> set irs" "coordinate_error lib lo la (snd ir)"
  shows "\<exists>e. join_rows lib b cn lo la irs c = Inl e"
  using assms(1)
proof (induction irs arbitrary: c)
  case Nil
  then show ?case by simp
next
  case (Cons x irs)
  show ?case
  proof (cases "join_row lib b cn lo la c x")
    case (Inl e)
    then show ?thesis by simp
  next
    case (Inr c1)
    then have "x \<noteq> ir"
      using row_point_fails [OF assms(2)] by (auto simp: join_row_def split: sum.splits)
    with Cons.prems have "ir \<in> set irs" by auto
    from Cons.IH [OF this] Inr show ?thesis by simp
  qed
qed

lemma join_levels_fails:
  assumes "lbs \<noteq> []" "r \<in> set (rows c)" "coordinate_error lib lo la r" "lib_float lib [] = None"
  shows "\<exists>e. join_levels lib lo la lbs c = Inl e"
proof -
  from assms(1) obtain lb rest where lbs: "lbs = lb # rest" by (cases lbs) auto
  let ?cn = "col_name (fst lb)"
  let ?c1 = "DictCSV_add_col c ?cn"
  let ?r = "AList.update ?cn (JStr []) r"
  have "?r \<in> set (rows ?c1)" using assms(2) by (simp add: DictCSV_add_col_def)
  then obtain j where j: "j < length (rows ?c1)" "rows ?c1 ! j = ?r"
    by (auto simp: in_set_conv_nth)
  then have m: "(j, ?r) \<in> set (enumerate 0 (rows ?c1))"
    by (simp add: in_set_enumerate_eq)
  have "coordinate_error lib lo la (snd (j, ?r))"
    using coordinate_error_add_col [OF assms(3,4)] by simp
  from join_rows_fails [OF m this] obtain e where
    "join_rows lib (snd lb) ?cn lo la (enumerate 0 (rows ?c1)) ?c1 = Inl e" by blast
  then show ?thesis unfolding lbs by (simp add: Let_def)
qed

lemma init_fails_on_coordinate_error:
  assumes "DictCSV_init csv_file = Inr c" "r \<in> set (rows c)"
    and "coordinate_error lib long lat r" "lib_float lib [] = None"
    and "boundary_files \<noteq> []"
  shows "\<exists>e. CSV2GeoJSON_init lib csv_file long lat boundary_files = Inl e"
proof (cases "traverse (GeoBoundary_init lib) boundary_files")
  case (Inl e)
  then show ?thesis by (simp add: CSV2GeoJSON_init_def)
next
  case (Inr bs)
  from traverse_length [OF Inr] assms(5) have "enumerate 0 bs \<noteq> []"
    by (auto simp: enumerate_eq_zip)
  from join_levels_fails [OF this assms(2,3,4)] obtain e where
    "join_levels lib long lat (enumerate 0 bs) c = Inl e" by blast
  with Inr assms(1,5) show ?thesis by (simp add: CSV2GeoJSON_init_def)
qed

lemma dump_markers_fails:
  assumes "r \<in> set (rows (csv self))" "coordinate_error lib (long_col self) (lat_col self) r"
  shows "\<exists>e. CSV2GeoJSON_dump_markers lib self = Inl e"
proof -
  from to_feature_fails [OF assms(2)] obtain e where "CSV2GeoJSON_to_feature lib self r = Inl e"
    by blast
  from traverse_fails [of r "rows (csv self)" "CSV2GeoJSON_to_feature lib self" e, OF assms(1) this]
  show ?thesis
    by (auto simp: CSV2GeoJSON_dump_markers_def)
qed

text \<open>
  Claim C7 (amended). Let some record of the table have a longitude or latitude cell
  that is missing or does not parse (and let \<open>float\<close> reject the empty string, as
  Python's does). Then the join fails as a whole when there is at least one boundary
  file, marker emission over the table fails as a whole, and so the run fails in every
  case and emits no markers: no row is skipped and there is no partial result.
\<close>

theorem coordinate_error_fails_run:
  assumes "DictCSV_init csv_file = Inr c"
    and "r \<in> set (rows c)"
    and "coordinate_error lib long lat r"
    and "lib_float lib [] = None"
  shows "(boundary_files \<noteq> [] \<longrightarrow>
            (\<exists>e. CSV2GeoJSON_init lib csv_file long lat boundary_files = Inl e))
       \<and> (\<forall>self. csv self = c \<and> long_col self = long \<and> lat_col self = lat \<longrightarrow>
            (\<exists>e. CSV2GeoJSON_dump_markers lib self = Inl e))
       \<and> (\<exists>e. main_markers lib csv_file long lat boundary_files = Inl e)"
proof -
  have 1: "boundary_files \<noteq> [] \<longrightarrow>
            (\<exists>e. CSV2GeoJSON_init lib csv_file long lat boundary_files = Inl e)"
    using init_fails_on_coordinate_error [OF assms] by blast
  have 2: "\<exists>e. CSV2GeoJSON_dump_markers lib self = Inl e"
    if "csv self = c \<and> long_col self = long \<and> lat_col self = lat" for self :: "'a csv2geojson"
    using dump_markers_fails [of r self lib] assms(2,3) that by simp
  have 3: "\<exists>e. main_markers lib csv_file long lat boundary_files = Inl e"
  proof (cases "CSV2GeoJSON_init lib csv_file long lat boundary_files")
    case (Inl e)
    then show ?thesis by (simp add: main_markers_def)
  next
    case (Inr self)
    with 1 have "boundary_files = []" by auto
    with Inr assms(1) have "csv self = c \<and> long_col self = long \<and> lat_col self = lat"
      by (auto simp: CSV2GeoJSON_init_def)
    from 2 [OF this] Inr show ?thesis by (simp add: main_markers_def)
  qed
  from 1 2 3 show ?thesis by blast
qed

theorem coordinate_error_fails_run_witness:
  "DictCSV_init [[''lon''], [''1''], [''2'']] =
       Inr \<lparr>header = [''lon''], rows = [[(''lon'', JStr ''1'')], [(''lon'', JStr ''2'')]],
            cols = [(''lon'', [JStr ''1'', JStr ''2''])]\<rparr>
   \<and> coordinate_error sample_lib ''lon'' ''lat'' [(''lon'', JStr ''2'')]
   \<and> (\<exists>e. CSV2GeoJSON_init sample_lib [[''lon''], [''1''], [''2'']] ''lon'' ''lat''
              [feature_collection [rect_feature ''A'' 0 0 2 2]] = Inl e)
   \<and> (\<exists>e. main_markers sample_lib [[''lon''], [''1''], [''2'']] ''lon'' ''lat''
              [feature_collection [rect_feature ''A'' 0 0 2 2]] = Inl e)
   \<and> (\<exists>e. main_markers sample_lib [[''lon''], [''1''], [''2'']] ''lon'' ''lat'' [] = Inl e)"
proof -
  let ?csv = "[[''lon''], [''1''], [''2'']]"
  let ?c = "\<lparr>header = [''lon''], rows = [[(''lon'', JStr ''1'')], [(''lon'', JStr ''2'')]],
            cols = [(''lon'', [JStr ''1'', JStr ''2''])]\<rparr>"
  let ?r = "[(''lon'', JStr ''2'')]"
  let ?files = "[feature_collection [rect_feature ''A'' 0 0 2 2]]"
  have i: "DictCSV_init ?csv = Inr ?c" by (simp add: py_dict_def)
  have m: "?r \<in> set (rows ?c)" by simp
  have e: "coordinate_error sample_lib ''lon'' ''lat'' ?r"
    by (simp add: coordinate_error_def dict_get_def)
  have f: "lib_float sample_lib [] = None" by (simp add: sample_lib_def sample_float_def)
  have ne: "?files \<noteq> []" by simp
  from coordinate_error_fails_run [OF i m e f, of ?files] ne
    coordinate_error_fails_run [OF i m e f, of "[]"] i e
  show ?thesis by blast
qed

text \<open>
  As stated the claim fails for the join with no boundary file: the join returns at once,
  without reading a coordinate, and succeeds on a record whose latitude does not parse.
\<close>

theorem join_skips_coordinates_without_boundaries:
  "coordinate_error sample_lib ''lon'' ''lat'' [(''lon'', JStr ''1''), (''lat'', JStr ''x'')]
   \<and> CSV2GeoJSON_init sample_lib [[''lon'', ''lat''], [''1'', ''x'']] ''lon'' ''lat'' [] =
       Inr \<lparr>boundaries = [],
            csv = \<lparr>header = [''lon'', ''lat''],
                    rows = [[(''lon'', JStr ''1''), (''lat'', JStr ''x'')]],
                    cols = [(''lon'', [JStr ''1'']), (''lat'', [JStr ''x''])]\<rparr>,
            long_col = ''lon'', lat_col = ''lat''\<rparr>"
  by (simp add: coordinate_error_def dict_get_def sample_lib_def sample_float_def
      CSV2GeoJSON_init_def py_dict_def)

subsection \<open>The join\<close>





















end
